theory Spec2Isabelle
  imports Complex_Main "HOL-Library.Sublist"
begin

section \<open>The AI orchestrator of \<open>ai_orchestrator/core.py\<close>\<close>

text \<open>
  The orchestrator class \<open>AIOrchestrator\<close> has three methods with a body in the source:
  \<open>route_request\<close>, \<open>process_with_fallback\<close> and \<open>validate_response_quality\<close>. The
  helper methods they call (\<open>route_strategy_audit\<close> and its siblings,
  \<open>get_fallback_models\<close>, \<open>call_model\<close>, the four task-specific validators,
  \<open>check_coherence\<close>, \<open>generate_fallback_response\<close>, \<open>load_model_registry\<close>, the metrics
  collector) and the attribute \<open>banned_phrases\<close> have no body in the source: they are
  fields of the record that stands for \<open>self\<close>, so that every theorem holds for whatever
  they compute.
\<close>

subsection \<open>Data\<close>

datatype AIModel =
    GPT_4_TURBO
  | CLAUDE_3_OPUS
  | CLAUDE_3_SONNET
  | MISTRAL_LARGE
  | GEMINI_PRO
  | LLAMA_3_70B
  | DBRX
  | CUSTOM_ACTIONUITY

text \<open>The \<open>.value\<close> of a member of the enumeration.\<close>

fun model_value :: "AIModel \<Rightarrow> string" where
  "model_value GPT_4_TURBO = ''gpt-4-turbo-preview''"
| "model_value CLAUDE_3_OPUS = ''claude-3-opus-20240229''"
| "model_value CLAUDE_3_SONNET = ''claude-3-sonnet-20240229''"
| "model_value MISTRAL_LARGE = ''mistral-large-latest''"
| "model_value GEMINI_PRO = ''gemini-pro''"
| "model_value LLAMA_3_70B = ''llama-3-70b-instruct''"
| "model_value DBRX = ''databricks/dbrx-instruct''"
| "model_value CUSTOM_ACTIONUITY = ''actionuity/action-officer-v1''"

text \<open>
  Exceptions are values. \<open>KeyError\<close> is what a dictionary subscript raises on a missing
  key; \<open>Exception\<close> stands for any other exception of class \<open>Exception\<close>, with the text
  that \<open>str(e)\<close> gives; \<open>BaseException\<close> stands for an exception outside class
  \<open>Exception\<close> (\<open>asyncio.CancelledError\<close>, \<open>KeyboardInterrupt\<close>, \<open>SystemExit\<close>), with its
  text. \<open>caught e\<close> is \<open>isinstance(e, Exception)\<close>: what \<open>except Exception\<close> catches.
\<close>

datatype error = KeyError string | Exception string | BaseException string

fun caught :: "error \<Rightarrow> bool" where
  "caught (KeyError k) = True"
| "caught (Exception msg) = True"
| "caught (BaseException msg) = False"

text \<open>
  \<open>repr\<close> of a string whose characters are code points below 256: in single quotes, or
  in double quotes when the string holds a single quote and no double quote; the
  backslash and the quote in use are escaped, tab, newline and carriage return are
  written \<open>\t\<close>, \<open>\n\<close>, \<open>\r\<close>, and every other character that is not printable (below
  \<open>0x20\<close>, \<open>0x7F\<close> to \<open>0xA0\<close>, \<open>0xAD\<close>) is written \<open>\xhh\<close>.
\<close>

definition hex_digit :: "nat \<Rightarrow> char" where
  "hex_digit n = ''0123456789abcdef'' ! (n mod 16)"

definition printable :: "char \<Rightarrow> bool" where
  "printable ch = (let n = of_char ch :: nat in (32 \<le> n \<and> n \<le> 126) \<or> (161 \<le> n \<and> n \<noteq> 173))"

definition escape :: "char \<Rightarrow> char \<Rightarrow> string" where
  "escape quote ch =
     (if ch = CHR 0x5C then [CHR 0x5C, CHR 0x5C]
      else if ch = quote then [CHR 0x5C, quote]
      else if ch = CHR 0x09 then [CHR 0x5C, CHR ''t'']
      else if ch = CHR 0x0A then [CHR 0x5C, CHR ''n'']
      else if ch = CHR 0x0D then [CHR 0x5C, CHR ''r'']
      else if printable ch then [ch]
      else [CHR 0x5C, CHR ''x'', hex_digit (of_char ch div 16), hex_digit (of_char ch)])"

definition repr :: "string \<Rightarrow> string" where
  "repr s =
     (let quote = (if CHR 0x27 \<in> set s \<and> CHR 0x22 \<notin> set s then CHR 0x22 else CHR 0x27)
      in [quote] @ concat (map (escape quote) s) @ [quote])"

text \<open>\<open>str(e)\<close>: of a \<open>KeyError\<close> it is the \<open>repr\<close> of the key.\<close>

fun str :: "error \<Rightarrow> string" where
  "str (KeyError k) = repr k"
| "str (Exception msg) = msg"
| "str (BaseException msg) = msg"

text \<open>The values of a dictionary: \<open>Dict[str, Any]\<close> as an association list.\<close>

datatype pyval = PBool bool | PStr string | PNum rat

type_synonym pydict = "(string \<times> pyval) list"

text \<open>
  The observable effects of one run, in program order: a call of a backend, and the three
  records the metrics collector is asked to make.
\<close>

datatype event =
    Call AIModel string pydict
  | RecordSuccess AIModel string
  | RecordQualityIssue AIModel string
  | RecordFailure AIModel string string

text \<open>
  The dataclass \<open>ModelCapability\<close>. The cost is a float in the source and a rational
  number here.
\<close>

record ModelCapability =
  strategy_planning :: bool
  code_generation :: bool
  creative_writing :: bool
  analysis_synthesis :: bool
  framework_alignment :: bool
  ethical_guidance :: bool
  cost_per_1k_tokens :: rat
  max_tokens :: int
  latency_ms :: int

text \<open>
  \<open>self\<close>. \<open>models\<close> is the registry that \<open>__init__\<close> loads. A backend call is the one
  operation on the outside world: it takes the world and returns the response or the
  exception it raised, and the world after the call. A coherence score is a float in the
  source; it is only compared with the constant \<open>0.7\<close>, and the model takes it as a
  rational number.
\<close>

record 'w AIOrchestrator =
  models :: "(AIModel \<times> ModelCapability) list"
  route_strategy_audit :: "pydict \<Rightarrow> AIModel"
  route_code_review :: "pydict \<Rightarrow> AIModel"
  route_creative_ideation :: "pydict \<Rightarrow> AIModel"
  route_ethical_assessment :: "pydict \<Rightarrow> AIModel"
  route_framework_alignment :: "pydict \<Rightarrow> AIModel"
  route_real_time_tutoring :: "pydict \<Rightarrow> AIModel"
  route_default :: "pydict \<Rightarrow> AIModel"
  get_fallback_models :: "AIModel \<Rightarrow> string \<Rightarrow> AIModel list"
  call_model :: "AIModel \<Rightarrow> string \<Rightarrow> pydict \<Rightarrow> 'w \<Rightarrow> (error + string) \<times> 'w"
  validate_strategy_response :: "string \<Rightarrow> bool"
  validate_code_response :: "string \<Rightarrow> bool"
  validate_creative_response :: "string \<Rightarrow> bool"
  validate_ethical_response :: "string \<Rightarrow> bool"
  banned_phrases :: "string list"
  check_coherence :: "string \<Rightarrow> rat"
  generate_fallback_response :: "string \<Rightarrow> string"
  get_latency :: "event list \<Rightarrow> rat"

text \<open>
  What a run reads and writes: the outside world, the cache object created by
  \<open>__init__\<close> (entries keyed by task type, prompt and context), and the effects so far.
\<close>

record 'w state =
  world :: 'w
  cache :: "((string \<times> string \<times> pydict) \<times> string) list"
  trace :: "event list"

subsection \<open>Strings\<close>

text \<open>
  \<open>response.lower()\<close>: a character of the model is a code point below 256, and the
  upper-case letters there are \<open>A\<close> to \<open>Z\<close> and \<open>0xC0\<close> to \<open>0xDE\<close> without \<open>0xD7\<close>.
  The lower-case letter is 32 further on; bit 5 is clear in both ranges, so that adding
  32 sets it.
\<close>

fun lower_char :: "char \<Rightarrow> char" where
  "lower_char (Char b0 b1 b2 b3 b4 b5 b6 b7) =
     (let n = of_char (Char b0 b1 b2 b3 b4 b5 b6 b7) :: nat
      in if (65 \<le> n \<and> n \<le> 90) \<or> (192 \<le> n \<and> n \<le> 222 \<and> n \<noteq> 215)
         then Char b0 b1 b2 b3 b4 True b6 b7
         else Char b0 b1 b2 b3 b4 b5 b6 b7)"

definition lower :: "string \<Rightarrow> string" where
  "lower s = map lower_char s"

text \<open>\<open>banned in text\<close>: the substring test, scanning the text from the left.\<close>

fun contains :: "string \<Rightarrow> string \<Rightarrow> bool" where
  "contains banned [] = (banned = [])"
| "contains banned (x # xs) = (prefix banned (x # xs) \<or> contains banned xs)"

subsection \<open>\<open>route_request\<close>\<close>

definition routing_rules :: "'w AIOrchestrator \<Rightarrow> (string \<times> (pydict \<Rightarrow> AIModel)) list" where
  "routing_rules self =
     [(''strategy_audit'', route_strategy_audit self),
      (''code_review'', route_code_review self),
      (''creative_ideation'', route_creative_ideation self),
      (''ethical_assessment'', route_ethical_assessment self),
      (''framework_alignment'', route_framework_alignment self),
      (''real_time_tutoring'', route_real_time_tutoring self)]"

text \<open>\<open>d[k]\<close> raises \<open>KeyError\<close> when the key is missing.\<close>

definition subscript :: "(string \<times> 'a) list \<Rightarrow> string \<Rightarrow> error + 'a" where
  "subscript d k = (case map_of d k of None \<Rightarrow> Inl (KeyError k) | Some v \<Rightarrow> Inr v)"

definition route_request :: "'w AIOrchestrator \<Rightarrow> string \<Rightarrow> pydict \<Rightarrow> error + AIModel" where
  "route_request self task_type context =
     (if task_type \<in> set (map fst (routing_rules self))
      then (case subscript (routing_rules self) task_type of
              Inl e \<Rightarrow> Inl e
            | Inr handler \<Rightarrow> Inr (handler context))
      else Inr (route_default self context))"

subsection \<open>\<open>validate_response_quality\<close>\<close>

definition validators :: "'w AIOrchestrator \<Rightarrow> (string \<times> (string \<Rightarrow> bool)) list" where
  "validators self =
     [(''strategy_audit'', validate_strategy_response self),
      (''code_review'', validate_code_response self),
      (''creative_ideation'', validate_creative_response self),
      (''ethical_assessment'', validate_ethical_response self)]"

definition validate_response_quality :: "'w AIOrchestrator \<Rightarrow> string \<Rightarrow> string \<Rightarrow> error + bool" where
  "validate_response_quality self response task_type =
     (if task_type \<in> set (map fst (validators self))
      then (case subscript (validators self) task_type of
              Inl e \<Rightarrow> Inl e
            | Inr validator \<Rightarrow> Inr (validator response))
      else Inr (length response > 50
                \<and> \<not> list_ex (\<lambda>banned. contains banned (lower response)) (banned_phrases self)
                \<and> check_coherence self response > 7 / 10))"

subsection \<open>\<open>process_with_fallback\<close>\<close>

text \<open>
  The loop over \<open>models_to_try\<close>. Each iteration calls the backend and validates the
  response inside \<open>try\<close>. An exception of either that \<open>except Exception\<close> catches is
  recorded with \<open>record_failure\<close> and the loop continues; any other exception leaves the
  function, after the call and before any record. A response the validator refuses is
  recorded with \<open>record_quality_issue\<close> and the loop continues; an accepted response is
  recorded with \<open>record_success\<close> and returned. \<open>Inr None\<close> is the loop running off the end
  of the list.
\<close>

fun try_models ::
  "'w AIOrchestrator \<Rightarrow> string \<Rightarrow> string \<Rightarrow> pydict \<Rightarrow> AIModel list \<Rightarrow> 'w state
     \<Rightarrow> (error + pydict option) \<times> 'w state" where
  "try_models self prompt task_type context [] s = (Inr None, s)"
| "try_models self prompt task_type context (model # rest) s =
     (case call_model self model prompt context (world s) of
        (Inl e, w) \<Rightarrow>
          if caught e
          then try_models self prompt task_type context rest
                 (s\<lparr>world := w,
                    trace := trace s @ [Call model prompt context,
                                        RecordFailure model task_type (str e)]\<rparr>)
          else (Inl e, s\<lparr>world := w, trace := trace s @ [Call model prompt context]\<rparr>)
      | (Inr result, w) \<Rightarrow>
          (case validate_response_quality self result task_type of
             Inl e \<Rightarrow>
               if caught e
               then try_models self prompt task_type context rest
                      (s\<lparr>world := w,
                         trace := trace s @ [Call model prompt context,
                                             RecordFailure model task_type (str e)]\<rparr>)
               else (Inl e, s\<lparr>world := w, trace := trace s @ [Call model prompt context]\<rparr>)
           | Inr True \<Rightarrow>
               (let t = trace s @ [Call model prompt context, RecordSuccess model task_type]
                in (Inr (Some [(''success'', PBool True),
                               (''model'', PStr (model_value model)),
                               (''response'', PStr result),
                               (''latency'', PNum (get_latency self t))]),
                    s\<lparr>world := w, trace := t\<rparr>))
           | Inr False \<Rightarrow>
               try_models self prompt task_type context rest
                 (s\<lparr>world := w,
                    trace := trace s @ [Call model prompt context,
                                        RecordQualityIssue model task_type]\<rparr>)))"

definition all_failed :: "'w AIOrchestrator \<Rightarrow> string \<Rightarrow> pydict" where
  "all_failed self task_type =
     [(''success'', PBool False),
      (''error'', PStr ''All AI models failed to produce valid response''),
      (''fallback_response'', PStr (generate_fallback_response self task_type))]"

definition models_to_try :: "'w AIOrchestrator \<Rightarrow> string \<Rightarrow> AIModel \<Rightarrow> AIModel list" where
  "models_to_try self task_type primary_model =
     [primary_model] @ get_fallback_models self primary_model task_type"

definition process_with_fallback ::
  "'w AIOrchestrator \<Rightarrow> string \<Rightarrow> string \<Rightarrow> pydict \<Rightarrow> 'w state
     \<Rightarrow> (error + pydict) \<times> 'w state" where
  "process_with_fallback self prompt task_type context s =
     (case route_request self task_type context of
        Inl e \<Rightarrow> (Inl e, s)
      | Inr primary_model \<Rightarrow>
          (case try_models self prompt task_type context
                  (models_to_try self task_type primary_model) s of
             (Inl e, s') \<Rightarrow> (Inl e, s')
           | (Inr (Some d), s') \<Rightarrow> (Inr d, s')
           | (Inr None, s') \<Rightarrow> (Inr (all_failed self task_type), s')))"

subsection \<open>Reading a run\<close>

text \<open>
  What each candidate answers when the candidates are called one after the other from a
  given world. The loop calls a prefix of them.
\<close>

fun outcomes ::
  "'w AIOrchestrator \<Rightarrow> string \<Rightarrow> pydict \<Rightarrow> AIModel list \<Rightarrow> 'w
     \<Rightarrow> (AIModel \<times> (error + string)) list" where
  "outcomes self prompt context [] w = []"
| "outcomes self prompt context (model # rest) w =
     (case call_model self model prompt context w of
        (r, w') \<Rightarrow> (model, r) # outcomes self prompt context rest w')"

text \<open>A candidate's answer is accepted when it is a response and the validator passes it.\<close>

fun accepted :: "'w AIOrchestrator \<Rightarrow> string \<Rightarrow> AIModel \<times> (error + string) \<Rightarrow> bool" where
  "accepted self task_type (model, Inl e) = False"
| "accepted self task_type (model, Inr result) =
     (validate_response_quality self result task_type = Inr True)"

text \<open>
  A candidate fails, and the loop goes on, when its call or the validator raises an
  exception of class \<open>Exception\<close>, or when the validator refuses its response.
\<close>

fun failed :: "'w AIOrchestrator \<Rightarrow> string \<Rightarrow> AIModel \<times> (error + string) \<Rightarrow> bool" where
  "failed self task_type (model, Inl e) = caught e"
| "failed self task_type (model, Inr result) =
     (case validate_response_quality self result task_type of
        Inl e \<Rightarrow> caught e
      | Inr b \<Rightarrow> \<not> b)"

text \<open>What the loop does with the answer of a candidate that fails.\<close>

fun rejection :: "'w AIOrchestrator \<Rightarrow> string \<Rightarrow> string \<Rightarrow> pydict
     \<Rightarrow> AIModel \<times> (error + string) \<Rightarrow> event list" where
  "rejection self prompt task_type context (model, Inl e) =
     [Call model prompt context, RecordFailure model task_type (str e)]"
| "rejection self prompt task_type context (model, Inr result) =
     (case validate_response_quality self result task_type of
        Inl e \<Rightarrow> [Call model prompt context, RecordFailure model task_type (str e)]
      | Inr b \<Rightarrow> [Call model prompt context, RecordQualityIssue model task_type])"

fun is_call :: "event \<Rightarrow> bool" where
  "is_call (Call model prompt context) = True"
| "is_call e = False"

subsection \<open>An orchestrator to run\<close>

text \<open>
  A concrete \<open>self\<close> for evaluation. Its world is the number of backend calls made so
  far; the primary of the six known task types is \<open>GPT_4_TURBO\<close>, which answers too
  briefly, and the default primary is \<open>MISTRAL_LARGE\<close>; the fallback chain is
  \<open>CLAUDE_3_SONNET\<close>, which raises, then \<open>GEMINI_PRO\<close>; every model but the first two
  answers at length. In its registry \<open>GPT_4_TURBO\<close> has no flag for framework
  alignment, and \<open>CLAUDE_3_SONNET\<close> costs more than \<open>GEMINI_PRO\<close>.
  \<open>demo_down\<close> is the same orchestrator with every backend refusing the connection, and
  \<open>demo_cancelled\<close> the same with every call cancelled.
\<close>

definition long_answer :: string where
  "long_answer = ''Start with one measurable goal, then review progress every week.''"

definition capability :: "bool \<Rightarrow> rat \<Rightarrow> int \<Rightarrow> ModelCapability" where
  "capability aligned cost latency =
     \<lparr>strategy_planning = True, code_generation = True, creative_writing = True,
      analysis_synthesis = True, framework_alignment = aligned, ethical_guidance = True,
      cost_per_1k_tokens = cost, max_tokens = 4096, latency_ms = latency\<rparr>"

definition demo :: "nat AIOrchestrator" where
  "demo = \<lparr>
     models = [(GPT_4_TURBO, capability False (1 / 100) 2000),
               (CLAUDE_3_SONNET, capability True (3 / 1000) 1200),
               (GEMINI_PRO, capability True (1 / 2000) 800),
               (MISTRAL_LARGE, capability True (1 / 125) 1000)],
     route_strategy_audit = (\<lambda>c. GPT_4_TURBO),
     route_code_review = (\<lambda>c. GPT_4_TURBO),
     route_creative_ideation = (\<lambda>c. GPT_4_TURBO),
     route_ethical_assessment = (\<lambda>c. GPT_4_TURBO),
     route_framework_alignment = (\<lambda>c. GPT_4_TURBO),
     route_real_time_tutoring = (\<lambda>c. GPT_4_TURBO),
     route_default = (\<lambda>c. MISTRAL_LARGE),
     get_fallback_models = (\<lambda>m t. [CLAUDE_3_SONNET, GEMINI_PRO]),
     call_model = (\<lambda>m p c n.
        (case m of
           GPT_4_TURBO \<Rightarrow> Inr ''ok''
         | CLAUDE_3_SONNET \<Rightarrow> Inl (Exception ''503 upstream timeout'')
         | _ \<Rightarrow> Inr long_answer, Suc n)),
     validate_strategy_response = (\<lambda>r. 50 < length r),
     validate_code_response = (\<lambda>r. 50 < length r),
     validate_creative_response = (\<lambda>r. 50 < length r),
     validate_ethical_response = (\<lambda>r. 50 < length r),
     banned_phrases = [''as an ai''],
     check_coherence = (\<lambda>r. 9 / 10),
     generate_fallback_response = (\<lambda>t. ''Please try again in a moment.''),
     get_latency = (\<lambda>t. 0) \<rparr>"

definition demo_down :: "nat AIOrchestrator" where
  "demo_down = demo\<lparr>call_model :=
     (\<lambda>m p c n. (Inl (Exception ''connection refused''), Suc n))\<rparr>"

definition demo_cancelled :: "nat AIOrchestrator" where
  "demo_cancelled = demo\<lparr>call_model :=
     (\<lambda>m p c n. (Inl (BaseException ''CancelledError''), Suc n))\<rparr>"

definition fresh :: "nat state" where
  "fresh = \<lparr>world = 0, cache = [], trace = []\<rparr>"

section \<open>The resilience components of the specification\<close>

text \<open>
  The circuit breaker (\<open>circuit_breaker.py\<close>) and the rate limiter (\<open>rate_limiter.py\<close>)
  are described by the deployment guide and the specification; their code is not among
  the sources. Each is modelled here from the specification's contract. Time is a number
  of seconds.
\<close>

subsection \<open>Circuit breaker\<close>

datatype breaker_state = CLOSED | OPEN | HALF_OPEN



record breaker_metrics =
  total_calls :: nat
  total_successes :: nat
  total_failures :: nat

text \<open>
  The state of one breaker, with the fields of the specification's data model and the
  count of the probe calls let through since the breaker became half-open, which
  \<open>allow\<close> needs for the probe budget.
\<close>

record BreakerState =
  name :: string
  state :: breaker_state
  consecutive_failures :: nat
  consecutive_successes_in_half_open :: nat
  opened_at :: nat
  probes_in_half_open :: nat
  metrics :: breaker_metrics















subsection \<open>Rate limiter\<close>

















text \<open>
  The error kinds of the specification, and step 2 of its \<open>process\<close>: a rejected
  admission is returned to the caller as \<open>RATE_LIMITED\<close> with the \<open>retryAfter\<close> of the
  admission.
\<close>

datatype error_kind =
    RATE_LIMITED
  | CIRCUIT_OPEN
  | VALIDATION_FAILED
  | ALL_BACKENDS_UNAVAILABLE
  | ALL_BACKENDS_FAILED
  | CACHE_UNAVAILABLE




section \<open>Theorems\<close>

lemma contains_iff_sublist: "contains banned s \<longleftrightarrow> sublist banned s"
  by (induction s) (auto simp: sublist_Cons_right)

lemma subscript_member:
  "k \<in> set (map fst d) \<Longrightarrow> \<exists>v. subscript d k = Inr v"
  by (cases "map_of d k") (auto simp: subscript_def map_of_eq_None_iff)

lemma route_request_Inr: "\<exists>model. route_request self task_type context = Inr model"
proof (cases "task_type \<in> set (map fst (routing_rules self))")
  case True
  from subscript_member [OF True] obtain h where "subscript (routing_rules self) task_type = Inr h" ..
  with True show ?thesis by (simp add: route_request_def)
next
  case False
  then show ?thesis by (simp add: route_request_def)
qed

lemma validate_Inr: "\<exists>b. validate_response_quality self r t = Inr b"
proof (cases "t \<in> set (map fst (validators self))")
  case True
  from subscript_member [OF True] obtain v where "subscript (validators self) t = Inr v" ..
  with True show ?thesis by (simp add: validate_response_quality_def)
next
  case False
  then show ?thesis by (simp add: validate_response_quality_def)
qed

subsection \<open>The loop\<close>

lemma map_fst_outcomes: "map fst (outcomes self p c ms w) = ms"
  by (induction ms arbitrary: w) (auto split: prod.splits)

lemma rejection_shape:
  "\<exists>e. rejection self p t c (m, r) = [Call m p c, e] \<and> \<not> is_call e"
proof (cases r)
  case (Inl e)
  then show ?thesis by simp
next
  case (Inr x)
  then show ?thesis by (cases "validate_response_quality self x t") simp_all
qed

text \<open>Every outcome is a failure, an accepted response, or an exception that is not caught.\<close>

lemma outcome_cases:
  "failed self t oc \<or> accepted self t oc \<or> (\<exists>m e. oc = (m, Inl e) \<and> \<not> caught e)"
proof (cases oc)
  case (Pair m r)
  show ?thesis
  proof (cases r)
    case (Inl e)
    with Pair show ?thesis by simp
  next
    case (Inr x)
    obtain b where "validate_response_quality self x t = Inr b"
      using validate_Inr by blast
    with Pair Inr show ?thesis by (cases b) simp_all
  qed
qed

lemma failed_not_accepted: "failed self t oc \<Longrightarrow> \<not> accepted self t oc"
  by (cases oc; cases "snd oc") (auto split: sum.splits)

lemma try_models_step_failed:
  "call_model self m p c (world s) = (r, w) \<Longrightarrow> failed self t (m, r) \<Longrightarrow>
   try_models self p t c (m # ms) s =
     try_models self p t c ms (s\<lparr>world := w, trace := trace s @ rejection self p t c (m, r)\<rparr>)"
  by (cases r) (auto split: sum.splits bool.splits)

lemma try_models_step_accepted:
  "call_model self m p c (world s) = (Inr r, w) \<Longrightarrow>
   validate_response_quality self r t = Inr True \<Longrightarrow>
   try_models self p t c (m # ms) s =
     (Inr (Some [(''success'', PBool True), (''model'', PStr (model_value m)),
                 (''response'', PStr r),
                 (''latency'', PNum (get_latency self
                    (trace s @ [Call m p c, RecordSuccess m t])))]),
      s\<lparr>world := w, trace := trace s @ [Call m p c, RecordSuccess m t]\<rparr>)"
  by (simp add: Let_def)

lemma try_models_step_raised:
  "call_model self m p c (world s) = (Inl e, w) \<Longrightarrow> \<not> caught e \<Longrightarrow>
   try_models self p t c (m # ms) s =
     (Inl e, s\<lparr>world := w, trace := trace s @ [Call m p c]\<rparr>)"
  by simp

lemma try_models_skip:
  "outcomes self p c ms (world s) = rej @ ocs \<Longrightarrow>
   \<forall>oc \<in> set rej. failed self t oc \<Longrightarrow>
   \<exists>w. try_models self p t c ms s =
          try_models self p t c (map fst ocs)
            (s\<lparr>world := w, trace := trace s @ concat (map (rejection self p t c) rej)\<rparr>)
        \<and> outcomes self p c (map fst ocs) w = ocs"
proof (induction rej arbitrary: ms s)
  case Nil
  then have "map fst ocs = ms"
    using map_fst_outcomes [of self p c ms "world s"] by simp
  with Nil show ?case by (intro exI [of _ "world s"]) simp
next
  case (Cons oc rej)
  then obtain m0 ms' where ms: "ms = m0 # ms'"
    by (cases ms) (auto split: prod.splits)
  obtain r0 w where call: "call_model self m0 p c (world s) = (r0, w)"
    by (cases "call_model self m0 p c (world s)")
  define s' where "s' = s\<lparr>world := w, trace := trace s @ rejection self p t c (m0, r0)\<rparr>"
  from Cons.prems(1) ms call have oc: "oc = (m0, r0)"
    and tl: "outcomes self p c ms' (world s') = rej @ ocs"
    by (simp_all add: s'_def)
  from Cons.prems(2) oc have rej0: "failed self t (m0, r0)"
    and rej: "\<forall>oc \<in> set rej. failed self t oc"
    by simp_all
  from try_models_step_failed [OF call rej0] ms
  have step: "try_models self p t c ms s = try_models self p t c ms' s'"
    by (simp add: s'_def)
  from Cons.IH [OF tl rej] step oc show ?case
    by (simp add: s'_def)
qed

lemma try_models_failure:
  assumes "\<forall>oc \<in> set (outcomes self p c ms (world s)). failed self t oc"
  shows "\<exists>w. try_models self p t c ms s =
     (Inr None, s\<lparr>world := w,
        trace := trace s @ concat (map (rejection self p t c) (outcomes self p c ms (world s)))\<rparr>)"
  using try_models_skip [of self p c ms s "outcomes self p c ms (world s)" "[]" t] assms
  by simp

lemma try_models_success:
  assumes "outcomes self p c ms (world s) = rej @ (m, Inr r) # rest"
    and "\<forall>oc \<in> set rej. failed self t oc"
    and "validate_response_quality self r t = Inr True"
  shows "\<exists>w. try_models self p t c ms s =
     (Inr (Some [(''success'', PBool True), (''model'', PStr (model_value m)),
                 (''response'', PStr r),
                 (''latency'', PNum (get_latency self
                    (trace s @ concat (map (rejection self p t c) rej)
                       @ [Call m p c, RecordSuccess m t])))]),
      s\<lparr>world := w,
        trace := trace s @ concat (map (rejection self p t c) rej)
                   @ [Call m p c, RecordSuccess m t]\<rparr>)"
proof -
  from try_models_skip [OF assms(1,2)] obtain w where
    run: "try_models self p t c ms s =
          try_models self p t c (m # map fst rest)
            (s\<lparr>world := w, trace := trace s @ concat (map (rejection self p t c) rej)\<rparr>)"
    and out: "outcomes self p c (m # map fst rest) w = (m, Inr r) # rest"
    by auto
  from out obtain w' where "call_model self m p c w = (Inr r, w')"
    by (auto split: prod.splits)
  then have "call_model self m p c
      (world (s\<lparr>world := w, trace := trace s @ concat (map (rejection self p t c) rej)\<rparr>))
      = (Inr r, w')" by simp
  from try_models_step_accepted [OF this assms(3)] run
  show ?thesis by (intro exI [of _ w']) simp
qed

lemma try_models_raised:
  assumes "outcomes self p c ms (world s) = rej @ (m, Inl e) # rest"
    and "\<forall>oc \<in> set rej. failed self t oc"
    and "\<not> caught e"
  shows "\<exists>w. try_models self p t c ms s =
     (Inl e, s\<lparr>world := w,
        trace := trace s @ concat (map (rejection self p t c) rej) @ [Call m p c]\<rparr>)"
proof -
  from try_models_skip [OF assms(1,2)] obtain w where
    run: "try_models self p t c ms s =
          try_models self p t c (m # map fst rest)
            (s\<lparr>world := w, trace := trace s @ concat (map (rejection self p t c) rej)\<rparr>)"
    and out: "outcomes self p c (m # map fst rest) w = (m, Inl e) # rest"
    by auto
  from out obtain w' where "call_model self m p c w = (Inl e, w')"
    by (auto split: prod.splits)
  then have "call_model self m p c
      (world (s\<lparr>world := w, trace := trace s @ concat (map (rejection self p t c) rej)\<rparr>))
      = (Inl e, w')" by simp
  from try_models_step_raised [OF this assms(3)] run
  show ?thesis by (intro exI [of _ w']) simp
qed

text \<open>The three ways a run of the loop ends.\<close>

lemma try_models_cases:
  obtains
    (exhausted) "\<forall>oc \<in> set (outcomes self p c ms (world s)). failed self t oc"
  | (success) rej m r rest where "outcomes self p c ms (world s) = rej @ (m, Inr r) # rest"
      "\<forall>oc \<in> set rej. failed self t oc" "validate_response_quality self r t = Inr True"
  | (raised) rej m e rest where "outcomes self p c ms (world s) = rej @ (m, Inl e) # rest"
      "\<forall>oc \<in> set rej. failed self t oc" "\<not> caught e"
proof (cases "\<forall>oc \<in> set (outcomes self p c ms (world s)). failed self t oc")
  case True
  then show ?thesis by (rule exhausted)
next
  case False
  then have "\<exists>oc \<in> set (outcomes self p c ms (world s)). \<not> failed self t oc" by blast
  from split_list_first_prop [OF this] obtain rej oc rest where
    dec: "outcomes self p c ms (world s) = rej @ oc # rest"
    and oc: "\<not> failed self t oc" and rej: "\<forall>x \<in> set rej. \<not> \<not> failed self t x" by blast
  from rej have rej': "\<forall>x \<in> set rej. failed self t x" by simp
  from outcome_cases [of self t oc] oc
  consider "accepted self t oc" | m e where "oc = (m, Inl e)" "\<not> caught e" by blast
  then show ?thesis
  proof cases
    case 1
    then obtain m r where "oc = (m, Inr r)" "validate_response_quality self r t = Inr True"
      by (cases oc; cases "snd oc") auto
    with dec rej' show ?thesis by (intro success [of rej m r rest]) simp_all
  next
    case 2
    with dec rej' show ?thesis by (intro raised [of rej m e rest]) simp_all
  qed
qed

lemma try_models_Some:
  "try_models self p t c ms s = (Inr (Some d), s') \<Longrightarrow>
   \<exists>m r l. validate_response_quality self r t = Inr True \<and>
     d = [(''success'', PBool True), (''model'', PStr (model_value m)),
          (''response'', PStr r), (''latency'', PNum l)]"
  by (induction ms arbitrary: s)
     (auto simp: Let_def split: prod.splits sum.splits bool.splits if_splits)

lemma try_models_Inl:
  "try_models self p t c ms s = (Inl e, s') \<Longrightarrow>
   \<not> caught e \<and> (\<exists>m. (m, Inl e) \<in> set (outcomes self p c ms (world s)))"
proof (cases rule: try_models_cases [of self p c ms s t])
  case exhausted
  assume "try_models self p t c ms s = (Inl e, s')"
  with try_models_failure [OF exhausted] show ?thesis by auto
next
  case (success rej m r rest)
  assume "try_models self p t c ms s = (Inl e, s')"
  with try_models_success [OF success] show ?thesis by auto
next
  case (raised rej m e' rest)
  assume "try_models self p t c ms s = (Inl e, s')"
  with try_models_raised [OF raised] raised(1,3) show ?thesis by auto
qed

lemma try_models_with_cache:
  "try_models self p t c ms (s\<lparr>cache := k\<rparr>) =
     (fst (try_models self p t c ms s), (snd (try_models self p t c ms s))\<lparr>cache := k\<rparr>)"
proof (induction ms arbitrary: s)
  case Nil
  show ?case by simp
next
  case (Cons m ms)
  have upd: "\<And>w tr. s\<lparr>cache := k, world := w, trace := tr\<rparr> = (s\<lparr>world := w, trace := tr\<rparr>)\<lparr>cache := k\<rparr>"
    by simp
  show ?case
    by (simp add: Let_def upd Cons.IH split: prod.splits sum.splits bool.splits)
qed

text \<open>The backends a run calls are the first candidates of the list, in its order.\<close>

lemma try_models_calls:
  "\<exists>tr n. trace (snd (try_models self p t c ms s)) = trace s @ tr
      \<and> n \<le> length ms \<and> (n = 0 \<longleftrightarrow> ms = [])
      \<and> filter is_call tr = map (\<lambda>m. Call m p c) (take n ms)"
proof (induction ms arbitrary: s)
  case Nil
  show ?case by (intro exI [of _ "[]"] exI [of _ 0]) simp
next
  case (Cons m ms)
  obtain r w where call: "call_model self m p c (world s) = (r, w)"
    by (cases "call_model self m p c (world s)")
  from outcome_cases [of self t "(m, r)"]
  consider "failed self t (m, r)" | "accepted self t (m, r)"
    | e where "r = Inl e" "\<not> caught e" by auto
  then show ?case
  proof cases
    case 1
    define s' where "s' = s\<lparr>world := w, trace := trace s @ rejection self p t c (m, r)\<rparr>"
    from try_models_step_failed [OF call 1]
    have step: "try_models self p t c (m # ms) s = try_models self p t c ms s'"
      by (simp add: s'_def)
    from Cons.IH [of s'] obtain tr n where
      tr: "trace (snd (try_models self p t c ms s')) = trace s' @ tr"
      and n: "n \<le> length ms"
      and calls: "filter is_call tr = map (\<lambda>m. Call m p c) (take n ms)" by blast
    obtain e where e: "rejection self p t c (m, r) = [Call m p c, e]" "\<not> is_call e"
      using rejection_shape by blast
    show ?thesis
      using step tr n calls e
      by (intro exI [of _ "rejection self p t c (m, r) @ tr"] exI [of _ "Suc n"])
         (simp add: s'_def)
  next
    case 2
    then obtain x where r: "r = Inr x" and ok: "validate_response_quality self x t = Inr True"
      by (cases r) auto
    from try_models_step_accepted [OF call [unfolded r] ok]
    show ?thesis
      by (intro exI [of _ "[Call m p c, RecordSuccess m t]"] exI [of _ 1]) simp
  next
    case 3
    from try_models_step_raised [OF call [unfolded 3(1)] 3(2)]
    show ?thesis
      by (intro exI [of _ "[Call m p c]"] exI [of _ 1]) simp
  qed
qed

lemma try_models_first_call:
  "\<exists>tr. trace (snd (try_models self p t c (m # ms) s)) = trace s @ Call m p c # tr"
proof -
  obtain r w where call: "call_model self m p c (world s) = (r, w)"
    by (cases "call_model self m p c (world s)")
  from outcome_cases [of self t "(m, r)"]
  consider "failed self t (m, r)" | "accepted self t (m, r)"
    | e where "r = Inl e" "\<not> caught e" by auto
  then show ?thesis
  proof cases
    case 1
    define s' where "s' = s\<lparr>world := w, trace := trace s @ rejection self p t c (m, r)\<rparr>"
    from try_models_step_failed [OF call 1]
    have "try_models self p t c (m # ms) s = try_models self p t c ms s'"
      by (simp add: s'_def)
    moreover obtain tr where "trace (snd (try_models self p t c ms s')) = trace s' @ tr"
      using try_models_calls [of self p t c ms s'] by blast
    moreover obtain e where "rejection self p t c (m, r) = [Call m p c, e]"
      using rejection_shape by blast
    ultimately show ?thesis by (simp add: s'_def)
  next
    case 2
    then obtain x where r: "r = Inr x" and ok: "validate_response_quality self x t = Inr True"
      by (cases r) auto
    from try_models_step_accepted [OF call [unfolded r] ok] show ?thesis by simp
  next
    case 3
    from try_models_step_raised [OF call [unfolded 3(1)] 3(2)] show ?thesis by simp
  qed
qed

lemma try_models_continues:
  assumes dec: "outcomes self p c ms (world s) = rej @ oc # rest"
    and rej: "\<forall>x \<in> set rej. failed self t x"
    and oc: "failed self t oc"
  shows "\<exists>tr. trace (snd (try_models self p t c ms s)) =
           trace s @ concat (map (rejection self p t c) rej) @ rejection self p t c oc @ tr
         \<and> take 1 tr = map (\<lambda>x. Call (fst x) p c) (take 1 rest)"
proof -
  from dec have dec': "outcomes self p c ms (world s) = (rej @ [oc]) @ rest" by simp
  from rej oc have rej': "\<forall>x \<in> set (rej @ [oc]). failed self t x" by simp
  from try_models_skip [OF dec' rej'] obtain w where
    run: "try_models self p t c ms s =
            try_models self p t c (map fst rest)
              (s\<lparr>world := w, trace := trace s @ concat (map (rejection self p t c) (rej @ [oc]))\<rparr>)"
    by blast
  show ?thesis
  proof (cases rest)
    case Nil
    with run show ?thesis by simp
  next
    case (Cons x rest')
    obtain m' r' where x: "x = (m', r')" by (cases x)
    from try_models_first_call obtain tr' where
      "trace (snd (try_models self p t c (m' # map fst rest')
          (s\<lparr>world := w, trace := trace s @ concat (map (rejection self p t c) (rej @ [oc]))\<rparr>))) =
       trace (s\<lparr>world := w, trace := trace s @ concat (map (rejection self p t c) (rej @ [oc]))\<rparr>)
         @ Call m' p c # tr'"
      by blast
    with run Cons x show ?thesis by simp
  qed
qed

lemma process_with_fallback_unfold:
  "route_request self task_type context = Inr primary \<Longrightarrow>
   process_with_fallback self prompt task_type context s =
     (case try_models self prompt task_type context (models_to_try self task_type primary) s of
        (Inl e, s') \<Rightarrow> (Inl e, s')
      | (Inr (Some d), s') \<Rightarrow> (Inr d, s')
      | (Inr None, s') \<Rightarrow> (Inr (all_failed self task_type), s'))"
  by (simp add: process_with_fallback_def)

lemma process_trace:
  "route_request self task_type context = Inr primary \<Longrightarrow>
   trace (snd (process_with_fallback self prompt task_type context s)) =
   trace (snd (try_models self prompt task_type context (models_to_try self task_type primary) s))"
  by (simp add: process_with_fallback_unfold split: prod.splits option.splits sum.splits)

lemmas demo_simps = process_with_fallback_def route_request_def routing_rules_def
  subscript_def models_to_try_def demo_def demo_down_def demo_cancelled_def
  validate_response_quality_def validators_def fresh_def long_answer_def Let_def lower_def
  all_failed_def capability_def

section \<open>Claims about the orchestrator\<close>

subsection \<open>Routing\<close>

text \<open>
  Claim C10. For every task type string, \<open>route_request\<close> returns a model and raises no
  \<open>KeyError\<close>: the subscript \<open>routing_rules[task_type]\<close> is reached only behind the
  membership test. A task type outside the six routing keys gets what \<open>route_default\<close>
  returns for the context.
\<close>

theorem route_request_default:
  "(\<exists>model. route_request self task_type context = Inr model)
   \<and> (task_type \<notin> {''strategy_audit'', ''code_review'', ''creative_ideation'',
                    ''ethical_assessment'', ''framework_alignment'', ''real_time_tutoring''}
        \<longrightarrow> route_request self task_type context = Inr (route_default self context))"
  using route_request_Inr [of self task_type "context"]
  by (simp add: route_request_def routing_rules_def)

theorem route_request_default_witness:
  "''translation'' \<notin> {''strategy_audit'', ''code_review'', ''creative_ideation'',
                    ''ethical_assessment'', ''framework_alignment'', ''real_time_tutoring''}
   \<and> route_request demo ''translation'' [] = Inr MISTRAL_LARGE"
  using route_request_default [of demo "''translation''" "[]"]
  by (simp add: demo_def)

subsection \<open>The quality gate\<close>

text \<open>
  Claim C8. For a task type with no validator of its own (any string but the four keys of
  \<open>validators\<close>), \<open>validate_response_quality\<close> returns true exactly when the response is
  longer than 50 characters, no banned phrase is a substring of the lower-cased response,
  and the coherence score is above \<open>0.7\<close>. No exception is raised on this path.
\<close>

theorem validate_default:
  "task_type \<notin> {''strategy_audit'', ''code_review'', ''creative_ideation'', ''ethical_assessment''} \<Longrightarrow>
   validate_response_quality self response task_type =
     Inr (50 < length response
          \<and> (\<forall>banned \<in> set (banned_phrases self). \<not> sublist banned (lower response))
          \<and> 7 / 10 < check_coherence self response)"
  by (simp add: validate_response_quality_def validators_def list_ex_iff contains_iff_sublist)

theorem validate_default_witness:
  "''real_time_tutoring'' \<notin> {''strategy_audit'', ''code_review'', ''creative_ideation'', ''ethical_assessment''}
   \<and> validate_response_quality demo long_answer ''real_time_tutoring'' = Inr True
   \<and> validate_response_quality demo
         ''As an AI I cannot answer that question, but here is a long reply.''
         ''real_time_tutoring'' = Inr False"
  using validate_default [of "''real_time_tutoring''" demo long_answer]
    validate_default [of "''real_time_tutoring''" demo
      "''As an AI I cannot answer that question, but here is a long reply.''"]
  by (simp add: demo_def long_answer_def lower_def contains_iff_sublist [symmetric])

subsection \<open>The fallback loop\<close>




text \<open>
  Claim C6. When every candidate of the list fails (its call raises an exception of class
  \<open>Exception\<close>, or the validator refuses its response), \<open>process_with_fallback\<close> returns
  the failure dictionary: \<open>success\<close> false, the fixed \<open>error\<close> text that names this
  outcome, and as \<open>fallback_response\<close> what \<open>generate_fallback_response\<close> makes of the task
  type alone. The candidate list is never empty. The exception texts of the backends go
  to \<open>record_failure\<close> and nowhere else: the returned dictionary is the same whatever the
  backends raised or answered.
\<close>

theorem all_candidates_failed:
  "route_request self task_type context = Inr primary \<Longrightarrow>
   \<forall>oc \<in> set (outcomes self prompt context (models_to_try self task_type primary) (world s)).
      failed self task_type oc \<Longrightarrow>
   models_to_try self task_type primary \<noteq> []
   \<and> fst (process_with_fallback self prompt task_type context s) =
       Inr [(''success'', PBool False),
            (''error'', PStr ''All AI models failed to produce valid response''),
            (''fallback_response'', PStr (generate_fallback_response self task_type))]
   \<and> trace (snd (process_with_fallback self prompt task_type context s)) =
       trace s @ concat (map (rejection self prompt task_type context)
         (outcomes self prompt context (models_to_try self task_type primary) (world s)))"
proof -
  assume route: "route_request self task_type context = Inr primary"
    and fail: "\<forall>oc \<in> set (outcomes self prompt context
        (models_to_try self task_type primary) (world s)). failed self task_type oc"
  from try_models_failure [OF fail] obtain w where
    "try_models self prompt task_type context (models_to_try self task_type primary) s =
       (Inr None, s\<lparr>world := w, trace := trace s @ concat (map (rejection self prompt task_type context)
         (outcomes self prompt context (models_to_try self task_type primary) (world s)))\<rparr>)"
    by blast
  with route show ?thesis
    by (simp add: process_with_fallback_unfold all_failed_def models_to_try_def)
qed

theorem all_candidates_failed_witness:
  "route_request demo_down ''strategy_audit'' [] = Inr GPT_4_TURBO
   \<and> outcomes demo_down ''Audit my strategy'' []
          (models_to_try demo_down ''strategy_audit'' GPT_4_TURBO) (world fresh)
      = [(GPT_4_TURBO, Inl (Exception ''connection refused'')),
         (CLAUDE_3_SONNET, Inl (Exception ''connection refused'')),
         (GEMINI_PRO, Inl (Exception ''connection refused''))]
   \<and> failed demo_down ''strategy_audit''
          (GPT_4_TURBO, Inl (Exception ''connection refused''))
   \<and> failed demo_down ''strategy_audit''
          (CLAUDE_3_SONNET, Inl (Exception ''connection refused''))
   \<and> failed demo_down ''strategy_audit''
          (GEMINI_PRO, Inl (Exception ''connection refused''))
   \<and> fst (process_with_fallback demo_down ''Audit my strategy'' ''strategy_audit'' [] fresh) =
       Inr [(''success'', PBool False),
            (''error'', PStr ''All AI models failed to produce valid response''),
            (''fallback_response'', PStr ''Please try again in a moment.'')]
   \<and> trace (snd (process_with_fallback demo_down ''Audit my strategy'' ''strategy_audit'' [] fresh)) =
       [Call GPT_4_TURBO ''Audit my strategy'' [],
        RecordFailure GPT_4_TURBO ''strategy_audit'' ''connection refused'',
        Call CLAUDE_3_SONNET ''Audit my strategy'' [],
        RecordFailure CLAUDE_3_SONNET ''strategy_audit'' ''connection refused'',
        Call GEMINI_PRO ''Audit my strategy'' [],
        RecordFailure GEMINI_PRO ''strategy_audit'' ''connection refused'']"
  using all_candidates_failed [of demo_down "''strategy_audit''" "[]" GPT_4_TURBO
    "''Audit my strategy''" fresh]
  by (simp add: demo_simps)

text \<open>
  Claim C1, as stated: a task whose response is in the cache gets the cached payload with
  \<open>from_cache\<close> true, and no backend is called. \<open>process_with_fallback\<close> has no cache
  lookup. In the run below the cache holds an answer for exactly this task type, prompt
  and context; the backend is called all the same, its response is returned, and the
  result has no \<open>from_cache\<close> entry.
\<close>

theorem cache_hit_counterexample:
  "process_with_fallback demo ''Plan my week'' ''summarise'' []
     \<lparr>world = 0,
      cache = [((''summarise'', ''Plan my week'', []), ''An answer stored earlier'')],
      trace = []\<rparr>
   = (Inr [(''success'', PBool True), (''model'', PStr ''mistral-large-latest''),
           (''response'', PStr long_answer), (''latency'', PNum 0)],
      \<lparr>world = 1,
       cache = [((''summarise'', ''Plan my week'', []), ''An answer stored earlier'')],
       trace = [Call MISTRAL_LARGE ''Plan my week'' [],
                RecordSuccess MISTRAL_LARGE ''summarise'']\<rparr>)"
  by (simp add: demo_simps)

text \<open>
  Claim C1, amended. \<open>process_with_fallback\<close> never reads the cache: the result and the
  effects of a run are the same for every content of the cache, which it leaves as it
  was; every run begins with a call of the backend that \<open>route_request\<close> returns; and the
  result has no \<open>from_cache\<close> entry.
\<close>

theorem process_ignores_cache:
  "process_with_fallback self prompt task_type context (s\<lparr>cache := k\<rparr>) =
     (fst (process_with_fallback self prompt task_type context s),
      (snd (process_with_fallback self prompt task_type context s))\<lparr>cache := k\<rparr>)
   \<and> (\<exists>primary tr. route_request self task_type context = Inr primary
        \<and> trace (snd (process_with_fallback self prompt task_type context s))
            = trace s @ Call primary prompt context # tr)
   \<and> ((\<exists>d. fst (process_with_fallback self prompt task_type context s) = Inr d
         \<and> map_of d ''from_cache'' = None)
      \<or> (\<exists>e. fst (process_with_fallback self prompt task_type context s) = Inl e
         \<and> \<not> caught e))"
proof (intro conjI)
  obtain primary where route: "route_request self task_type context = Inr primary"
    using route_request_Inr by blast
  obtain res s' where run: "try_models self prompt task_type context
      (models_to_try self task_type primary) s = (res, s')"
    by (cases "try_models self prompt task_type context (models_to_try self task_type primary) s")
  from route run
  show "process_with_fallback self prompt task_type context (s\<lparr>cache := k\<rparr>) =
     (fst (process_with_fallback self prompt task_type context s),
      (snd (process_with_fallback self prompt task_type context s))\<lparr>cache := k\<rparr>)"
    by (simp add: process_with_fallback_unfold try_models_with_cache
          split: option.splits sum.splits)
  from try_models_first_call [of self prompt task_type "context" primary
      "get_fallback_models self primary task_type" s] route
  show "\<exists>primary tr. route_request self task_type context = Inr primary
        \<and> trace (snd (process_with_fallback self prompt task_type context s))
            = trace s @ Call primary prompt context # tr"
    by (simp add: process_trace models_to_try_def)
  show "(\<exists>d. fst (process_with_fallback self prompt task_type context s) = Inr d
         \<and> map_of d ''from_cache'' = None)
      \<or> (\<exists>e. fst (process_with_fallback self prompt task_type context s) = Inl e
         \<and> \<not> caught e)"
  proof (cases res)
    case (Inl e)
    with run try_models_Inl [of self prompt task_type "context" _ s e s'] route
    show ?thesis by (simp add: process_with_fallback_unfold)
  next
    case (Inr opt)
    show ?thesis
    proof (cases opt)
      case None
      with Inr route run show ?thesis
        by (simp add: process_with_fallback_unfold all_failed_def)
    next
      case (Some d)
      with Inr run obtain m r l where
        "d = [(''success'', PBool True), (''model'', PStr (model_value m)),
              (''response'', PStr r), (''latency'', PNum l)]"
        using try_models_Some by blast
      with Some Inr route run show ?thesis
        by (simp add: process_with_fallback_unfold)
    qed
  qed
qed

text \<open>
  Claim C2, as stated: every earlier candidate that failed, in transport or in validation,
  has a failure reported to its circuit breaker before the next candidate is tried. The
  orchestrator has no circuit breaker, and a response the validator refuses is not
  recorded as a failure: in the run below the first candidate answers too briefly, and
  what is recorded before the second candidate is called is a quality issue.
\<close>

theorem failure_report_counterexample:
  "process_with_fallback demo ''Review this diff'' ''code_review'' [] fresh
   = (Inr [(''success'', PBool True), (''model'', PStr ''gemini-pro''),
           (''response'', PStr long_answer), (''latency'', PNum 0)],
      \<lparr>world = 3, cache = [],
       trace = [Call GPT_4_TURBO ''Review this diff'' [],
                RecordQualityIssue GPT_4_TURBO ''code_review'',
                Call CLAUDE_3_SONNET ''Review this diff'' [],
                RecordFailure CLAUDE_3_SONNET ''code_review'' ''503 upstream timeout'',
                Call GEMINI_PRO ''Review this diff'' [],
                RecordSuccess GEMINI_PRO ''code_review'']\<rparr>)"
  by (simp add: demo_simps)

text \<open>
  Claim C2, amended. The candidates are the primary that \<open>route_request\<close> returns,
  followed by \<open>get_fallback_models\<close>; they are called one at a time in that order. When
  \<open>m\<close> is the first candidate whose response the validator accepts, the result is the
  success dictionary with the \<open>.value\<close> of \<open>m\<close> under \<open>model\<close> and the response of \<open>m\<close>.
  The effects of the run are, for each earlier candidate in order, its call followed by
  one record with the metrics collector (\<open>record_failure\<close> when the call or the validator
  raised an exception of class \<open>Exception\<close>, \<open>record_quality_issue\<close> when the validator
  refused the response), then the call of \<open>m\<close> and \<open>record_success\<close>: no later candidate
  is called.
\<close>

theorem first_accepted_candidate:
  "route_request self task_type context = Inr primary \<Longrightarrow>
   outcomes self prompt context (models_to_try self task_type primary) (world s)
     = rej @ (m, Inr r) # rest \<Longrightarrow>
   \<forall>oc \<in> set rej. failed self task_type oc \<Longrightarrow>
   accepted self task_type (m, Inr r) \<Longrightarrow>
   map fst (rej @ (m, Inr r) # rest) = primary # get_fallback_models self primary task_type
   \<and> (\<exists>w. process_with_fallback self prompt task_type context s =
        (Inr [(''success'', PBool True), (''model'', PStr (model_value m)),
              (''response'', PStr r),
              (''latency'', PNum (get_latency self
                 (trace s @ concat (map (rejection self prompt task_type context) rej)
                    @ [Call m prompt context, RecordSuccess m task_type])))],
         s\<lparr>world := w,
           trace := trace s @ concat (map (rejection self prompt task_type context) rej)
                      @ [Call m prompt context, RecordSuccess m task_type]\<rparr>))"
proof -
  assume route: "route_request self task_type context = Inr primary"
    and dec: "outcomes self prompt context (models_to_try self task_type primary) (world s)
        = rej @ (m, Inr r) # rest"
    and rej: "\<forall>oc \<in> set rej. failed self task_type oc"
    and acc: "accepted self task_type (m, Inr r)"
  from acc have ok: "validate_response_quality self r task_type = Inr True" by simp
  from map_fst_outcomes [of self prompt "context" "models_to_try self task_type primary" "world s"] dec
  have "map fst (rej @ (m, Inr r) # rest) = primary # get_fallback_models self primary task_type"
    by (simp add: models_to_try_def)
  moreover from try_models_success [OF dec rej ok] route
  have "\<exists>w. process_with_fallback self prompt task_type context s =
        (Inr [(''success'', PBool True), (''model'', PStr (model_value m)),
              (''response'', PStr r),
              (''latency'', PNum (get_latency self
                 (trace s @ concat (map (rejection self prompt task_type context) rej)
                    @ [Call m prompt context, RecordSuccess m task_type])))],
         s\<lparr>world := w,
           trace := trace s @ concat (map (rejection self prompt task_type context) rej)
                      @ [Call m prompt context, RecordSuccess m task_type]\<rparr>)"
    by (auto simp: process_with_fallback_unfold)
  ultimately show ?thesis by blast
qed

theorem first_accepted_candidate_witness:
  "route_request demo ''creative_ideation'' [] = Inr GPT_4_TURBO
   \<and> outcomes demo ''Name my product'' [] (models_to_try demo ''creative_ideation'' GPT_4_TURBO)
        (world fresh)
      = [(GPT_4_TURBO, Inr ''ok''), (CLAUDE_3_SONNET, Inl (Exception ''503 upstream timeout''))]
          @ (GEMINI_PRO, Inr long_answer) # []
   \<and> failed demo ''creative_ideation'' (GPT_4_TURBO, Inr ''ok'')
   \<and> failed demo ''creative_ideation''
          (CLAUDE_3_SONNET, Inl (Exception ''503 upstream timeout''))
   \<and> accepted demo ''creative_ideation'' (GEMINI_PRO, Inr long_answer)
   \<and> (\<exists>w. process_with_fallback demo ''Name my product'' ''creative_ideation'' [] fresh =
        (Inr [(''success'', PBool True), (''model'', PStr ''gemini-pro''),
              (''response'', PStr long_answer), (''latency'', PNum 0)],
         \<lparr>world = w, cache = [],
          trace = [Call GPT_4_TURBO ''Name my product'' [],
                   RecordQualityIssue GPT_4_TURBO ''creative_ideation'',
                   Call CLAUDE_3_SONNET ''Name my product'' [],
                   RecordFailure CLAUDE_3_SONNET ''creative_ideation'' ''503 upstream timeout'',
                   Call GEMINI_PRO ''Name my product'' [],
                   RecordSuccess GEMINI_PRO ''creative_ideation'']\<rparr>))"
  using first_accepted_candidate [of demo "''creative_ideation''" "[]" GPT_4_TURBO
    "''Name my product''" fresh
    "[(GPT_4_TURBO, Inr ''ok''), (CLAUDE_3_SONNET, Inl (Exception ''503 upstream timeout''))]"
    GEMINI_PRO long_answer "[]"]
  by (simp add: demo_simps)

text \<open>
  Claim C7, as stated: a response the validator refuses has a failure reported to the
  circuit breaker of its backend. In the run below the call of the first candidate
  returns a response, the validator refuses it as too short, and the only record made
  for that candidate is a quality issue with the metrics collector.
\<close>

theorem quality_issue_counterexample:
  "call_model demo GPT_4_TURBO ''Align to pillars'' [] 0 = (Inr ''ok'', 1)
   \<and> validate_response_quality demo ''ok'' ''framework_alignment'' = Inr False
   \<and> trace (snd (process_with_fallback demo ''Align to pillars'' ''framework_alignment'' [] fresh))
      = [Call GPT_4_TURBO ''Align to pillars'' [],
         RecordQualityIssue GPT_4_TURBO ''framework_alignment'',
         Call CLAUDE_3_SONNET ''Align to pillars'' [],
         RecordFailure CLAUDE_3_SONNET ''framework_alignment'' ''503 upstream timeout'',
         Call GEMINI_PRO ''Align to pillars'' [],
         RecordSuccess GEMINI_PRO ''framework_alignment'']"
  by (simp add: demo_simps)

text \<open>
  Claim C7, amended. When the call of a candidate the loop reaches returns a response
  and the validator refuses it, the orchestrator records a quality issue for that
  candidate with the metrics collector, the next effect of the run is the call of the
  next candidate when one is left, and the dictionary returned to the caller does not
  carry the refused response (when a later call raises an exception outside class
  \<open>Exception\<close>, that exception is what the caller gets).
\<close>

theorem refused_response:
  "route_request self task_type context = Inr primary \<Longrightarrow>
   outcomes self prompt context (models_to_try self task_type primary) (world s)
     = rej @ (m, Inr r) # rest \<Longrightarrow>
   \<forall>oc \<in> set rej. failed self task_type oc \<Longrightarrow>
   validate_response_quality self r task_type = Inr False \<Longrightarrow>
   (\<exists>tr. trace (snd (process_with_fallback self prompt task_type context s))
           = trace s @ concat (map (rejection self prompt task_type context) rej)
               @ [Call m prompt context, RecordQualityIssue m task_type] @ tr
         \<and> take 1 tr = map (\<lambda>oc. Call (fst oc) prompt context) (take 1 rest))
   \<and> ((\<exists>d. fst (process_with_fallback self prompt task_type context s) = Inr d
         \<and> map_of d ''response'' \<noteq> Some (PStr r))
      \<or> (\<exists>e m'. fst (process_with_fallback self prompt task_type context s) = Inl e
         \<and> \<not> caught e \<and> (m', Inl e) \<in> set rest))"
proof -
  assume route: "route_request self task_type context = Inr primary"
    and dec: "outcomes self prompt context (models_to_try self task_type primary) (world s)
        = rej @ (m, Inr r) # rest"
    and rej: "\<forall>oc \<in> set rej. failed self task_type oc"
    and bad: "validate_response_quality self r task_type = Inr False"
  from bad have "failed self task_type (m, Inr r)" by simp
  from try_models_continues [OF dec rej this] bad process_trace [OF route, of prompt s]
  have one: "\<exists>tr. trace (snd (process_with_fallback self prompt task_type context s))
           = trace s @ concat (map (rejection self prompt task_type context) rej)
               @ [Call m prompt context, RecordQualityIssue m task_type] @ tr
         \<and> take 1 tr = map (\<lambda>oc. Call (fst oc) prompt context) (take 1 rest)"
    by simp
  obtain res s' where run: "try_models self prompt task_type context
      (models_to_try self task_type primary) s = (res, s')"
    by (cases "try_models self prompt task_type context (models_to_try self task_type primary) s")
  have two: "(\<exists>d. fst (process_with_fallback self prompt task_type context s) = Inr d
         \<and> map_of d ''response'' \<noteq> Some (PStr r))
      \<or> (\<exists>e m'. fst (process_with_fallback self prompt task_type context s) = Inl e
         \<and> \<not> caught e \<and> (m', Inl e) \<in> set rest)"
  proof (cases res)
    case (Inl e)
    with run try_models_Inl [of self prompt task_type "context"
        "models_to_try self task_type primary" s e s'] dec
    have e: "\<not> caught e" and "\<exists>m'. (m', Inl e) \<in> set (rej @ (m, Inr r) # rest)"
      by simp_all
    then obtain m' where mem: "(m', Inl e) \<in> set (rej @ (m, Inr r) # rest)" by blast
    from e rej have "(m', Inl e) \<notin> set rej" by auto
    with mem have "(m', Inl e) \<in> set rest" by simp
    with e Inl run route show ?thesis
      by (auto simp: process_with_fallback_unfold)
  next
    case (Inr opt)
    show ?thesis
    proof (cases opt)
      case None
      with Inr route run show ?thesis
        by (simp add: process_with_fallback_unfold all_failed_def)
    next
      case (Some d)
      with Inr run obtain m' r' l where ok: "validate_response_quality self r' task_type = Inr True"
        and d: "d = [(''success'', PBool True), (''model'', PStr (model_value m')),
              (''response'', PStr r'), (''latency'', PNum l)]"
        using try_models_Some by blast
      from ok bad have "r' \<noteq> r" by auto
      with d Some Inr route run show ?thesis
        by (simp add: process_with_fallback_unfold)
    qed
  qed
  from one two show ?thesis by blast
qed

theorem refused_response_witness:
  "route_request demo ''real_time_tutoring'' [] = Inr GPT_4_TURBO
   \<and> outcomes demo ''Explain recursion'' [] (models_to_try demo ''real_time_tutoring'' GPT_4_TURBO)
        (world fresh)
      = [] @ (GPT_4_TURBO, Inr ''ok'')
          # [(CLAUDE_3_SONNET, Inl (Exception ''503 upstream timeout'')),
             (GEMINI_PRO, Inr long_answer)]
   \<and> validate_response_quality demo ''ok'' ''real_time_tutoring'' = Inr False
   \<and> (\<exists>tr. trace (snd (process_with_fallback demo ''Explain recursion'' ''real_time_tutoring'' [] fresh))
           = [Call GPT_4_TURBO ''Explain recursion'' [],
              RecordQualityIssue GPT_4_TURBO ''real_time_tutoring''] @ tr
         \<and> take 1 tr = [Call CLAUDE_3_SONNET ''Explain recursion'' []])
   \<and> (\<exists>d. fst (process_with_fallback demo ''Explain recursion'' ''real_time_tutoring'' [] fresh) = Inr d
         \<and> map_of d ''response'' \<noteq> Some (PStr ''ok''))"
  using refused_response [of demo "''real_time_tutoring''" "[]" GPT_4_TURBO
    "''Explain recursion''" fresh "[]" GPT_4_TURBO "''ok''"
    "[(CLAUDE_3_SONNET, Inl (Exception ''503 upstream timeout'')), (GEMINI_PRO, Inr long_answer)]"]
  by (simp add: demo_simps)

subsection \<open>What the routing looks at\<close>



section \<open>Claims about the circuit breaker\<close>















section \<open>Claims about the rate limiter\<close>





























end
